theory Spec2Isabelle
  imports Complex_Main
begin

section \<open>Data model\<close>

text \<open>
  The documents of the marketplace backend, as the Mongoose schemas declare them. An
  \<open>ObjectId\<close> is a string, a \<open>Date\<close> its value in milliseconds where dates are
  compared. A JavaScript \<open>Number\<close> is a real number: stock counts, quantities, prices
  and counters are added and compared exactly. Where the rounding of double
  arithmetic can change what an operation decides (the discounts that
  \<open>findBestPromotion\<close> compares), the rounded operations are parameters of the
  model. Fields that no modelled operation reads or writes are left out of the
  records. Every document is taken to pass its schema's validation.
\<close>

type_synonym objectId = string

datatype httpStatus = NOT_FOUND | BAD_REQUEST | CONFLICT

text \<open>\<open>ApiError\<close> carries an HTTP status; \<open>Error\<close> is the plain JavaScript error
  that the model methods throw. Messages are not modelled.\<close>

datatype error = ApiError httpStatus | Error

record lineItem =
  productId :: objectId
  quantity :: real
  price :: real

record product =
  name :: string
  stock :: real

record promotion =
  p_id :: objectId
  code :: string
  discountType :: string
  discountValue :: real
  expirationDate :: "int option"
  usageLimit :: real
  usedCount :: real
  isActive :: bool
  redemptionHistory :: "(objectId \<times> objectId) list"
  applicableProducts :: "objectId list"
  weekly :: "string \<rightharpoonup> real"
  monthly :: "string \<rightharpoonup> real"
  yearly :: "string \<rightharpoonup> real"

text \<open>The request body of order placement; \<open>Order.create\<close> extends it with the
  client, the default status and the revenue computed by the pre-save hook.\<close>

record orderBody =
  merchant :: objectId
  products :: "lineItem list"
  promotion :: "objectId option"
  totalPrice :: real

record order = orderBody +
  client :: objectId
  status :: string
  revenue :: real

record delivery =
  order_ref :: objectId
  livreur :: "objectId option"
  delivery_status :: string

record livreurDoc =
  isAvailable :: bool
  deliveriesAssigned :: "objectId list"

text \<open>The document store: one collection per Mongoose model. Promotions are kept in
  the order in which \<open>Promotion.find\<close> returns them.\<close>

record db =
  Product :: "objectId \<rightharpoonup> product"
  Promotion :: "promotion list"
  Order :: "objectId \<rightharpoonup> order"
  Delivery :: "objectId \<rightharpoonup> delivery"
  Livreur :: "objectId \<rightharpoonup> livreurDoc"

section \<open>Promotion model (promotion.model.js)\<close>

text \<open>\<open>isValid\<close>: \<open>this.isActive && this.usageLimit > this.usedCount &&
  (!this.expirationDate || now <= this.expirationDate)\<close>, with the short-circuit
  order of the source. \<open>now\<close> is the reading of the clock.\<close>

definition isValid :: "int \<Rightarrow> promotion \<Rightarrow> bool" where
  "isValid now p =
     (if \<not> isActive p then False
      else if \<not> (usageLimit p > usedCount p) then False
      else (case expirationDate p of None \<Rightarrow> True | Some e \<Rightarrow> now \<le> e))"

section \<open>Order service (order.service.js)\<close>

text \<open>\<open>Promotion.findById\<close>.\<close>

definition findPromotionById :: "promotion list \<Rightarrow> objectId \<Rightarrow> promotion option" where
  "findPromotionById ps i = find (\<lambda>p. p_id p = i) ps"

text \<open>The first loop of \<open>createOrder\<close>: the availability check of every line item,
  stopping at the first throw.\<close>

fun checkAvailability :: "(objectId \<rightharpoonup> product) \<Rightarrow> lineItem list \<Rightarrow> error option" where
  "checkAvailability P [] = None"
| "checkAvailability P (item # items) =
     (case P (productId item) of
        None \<Rightarrow> Some (ApiError NOT_FOUND)
      | Some pr \<Rightarrow>
          if stock pr < quantity item then Some (ApiError BAD_REQUEST)
          else checkAvailability P items)"

text \<open>\<open>Product.findByIdAndUpdate(id, { $inc: { stock: d } })\<close>: a missing product is
  left missing, and nothing is thrown.\<close>

definition incStock :: "(objectId \<rightharpoonup> product) \<Rightarrow> objectId \<Rightarrow> real \<Rightarrow> (objectId \<rightharpoonup> product)" where
  "incStock P i d =
     (case P i of None \<Rightarrow> P | Some pr \<Rightarrow> P(i \<mapsto> pr\<lparr>stock := stock pr + d\<rparr>))"

text \<open>The last loop of \<open>createOrder\<close>.\<close>

fun reduceStock :: "(objectId \<rightharpoonup> product) \<Rightarrow> lineItem list \<Rightarrow> (objectId \<rightharpoonup> product)" where
  "reduceStock P [] = P"
| "reduceStock P (item # items) = reduceStock (incStock P (productId item) (- quantity item)) items"

text \<open>\<open>calculateOrderTotal\<close>: \<open>products.reduce((acc, item) => acc + item.quantity *
  item.price, 0)\<close>. \<open>createOrder\<close> computes its total with the same expression.\<close>

definition calculateOrderTotal :: "lineItem list \<Rightarrow> real" where
  "calculateOrderTotal items = foldl (\<lambda>acc item. acc + quantity item * price item) 0 items"

text \<open>The promotion block of \<open>createOrder\<close>: it returns the request body with the
  \<open>totalPrice\<close> that the block assigns.\<close>

definition applyOrderPromotion :: "promotion list \<Rightarrow> int \<Rightarrow> orderBody \<Rightarrow> error + orderBody" where
  "applyOrderPromotion ps now orderBody =
     (case promotion orderBody of
        None \<Rightarrow> Inr orderBody
      | Some i \<Rightarrow>
          (case findPromotionById ps i of
             None \<Rightarrow> Inl (ApiError NOT_FOUND)
           | Some promo \<Rightarrow>
               if \<not> isValid now promo then Inl (ApiError BAD_REQUEST)
               else Inr (orderBody\<lparr>totalPrice :=
                      totalPrice orderBody - (totalPrice orderBody * discountValue promo) / 100\<rparr>)))"

text \<open>The pre-save hook of the order schema:
  \<open>this.revenue = this.products.reduce((acc, product) => acc + product.quantity * product.price, 0)\<close>.\<close>

definition preSave :: "order \<Rightarrow> order" where
  "preSave ord =
     ord\<lparr>revenue := foldl (\<lambda>acc product. acc + quantity product * price product) 0 (products ord)\<rparr>"

text \<open>\<open>Order.create({ client: clientId, ...orderBody })\<close>: the status takes its
  default and the document is saved, which runs the pre-save hook (the revenue has
  no value before the hook; 0 stands for it). The identifier of the new document is
  chosen by the store and is a parameter of \<open>createOrder\<close>.\<close>

definition Order_create :: "objectId \<Rightarrow> orderBody \<Rightarrow> order" where
  "Order_create clientId orderBody =
     preSave (orderBody.extend orderBody (order.fields clientId ''pending'' 0))"

text \<open>\<open>createOrder\<close>. The result pairs what the call returns or throws with the
  store it leaves behind.\<close>

definition createOrder :: "db \<Rightarrow> int \<Rightarrow> objectId \<Rightarrow> objectId \<Rightarrow> orderBody \<Rightarrow> (error + order) \<times> db" where
  "createOrder s now newId clientId orderBody =
     (case checkAvailability (Product s) (products orderBody) of
        Some e \<Rightarrow> (Inl e, s)
      | None \<Rightarrow>
          (case applyOrderPromotion (Promotion s) now orderBody of
             Inl e \<Rightarrow> (Inl e, s)
           | Inr orderBody1 \<Rightarrow>
               let totalPrice' = calculateOrderTotal (products orderBody1);
                   orderBody2 = orderBody1\<lparr>totalPrice := totalPrice'\<rparr>;
                   ord = Order_create clientId orderBody2;
                   s1 = s\<lparr>Order := (Order s)(newId \<mapsto> ord)\<rparr>;
                   s2 = s1\<lparr>Product := reduceStock (Product s1) (products ord)\<rparr>
               in (Inr ord, s2)))"

text \<open>\<open>order.save()\<close>: the pre-save hook runs, then the document replaces the stored
  one. It returns the saved document with the store.\<close>

definition order_save :: "db \<Rightarrow> objectId \<Rightarrow> order \<Rightarrow> order \<times> db" where
  "order_save s orderId ord =
     (let ord' = preSave ord in (ord', s\<lparr>Order := (Order s)(orderId \<mapsto> ord')\<rparr>))"

text \<open>\<open>getOrderById\<close>. The populated references are not modelled: a populated
  \<open>productId\<close> is cast back to the identifier where it is used, and the
  identifier of a product that no longer exists matches no document.\<close>

definition getOrderById :: "db \<Rightarrow> objectId \<Rightarrow> error + order" where
  "getOrderById s orderId =
     (case Order s orderId of None \<Rightarrow> Inl (ApiError NOT_FOUND) | Some ord \<Rightarrow> Inr ord)"

definition orderStatuses :: "string list" where
  "orderStatuses = [''pending'', ''accepted'', ''in_progress'', ''completed'', ''cancelled'']"

text \<open>\<open>updateOrderStatus\<close>.\<close>

definition updateOrderStatus :: "db \<Rightarrow> objectId \<Rightarrow> string \<Rightarrow> (error + order) \<times> db" where
  "updateOrderStatus s orderId newStatus =
     (case Order s orderId of
        None \<Rightarrow> (Inl (ApiError NOT_FOUND), s)
      | Some ord \<Rightarrow>
          if newStatus \<notin> set orderStatuses then (Inl (ApiError BAD_REQUEST), s)
          else (case order_save s orderId (ord\<lparr>status := newStatus\<rparr>) of
                  (ord', s') \<Rightarrow> (Inr ord', s')))"

text \<open>The loop of \<open>cancelOrder\<close>.\<close>

fun restoreStock :: "(objectId \<rightharpoonup> product) \<Rightarrow> lineItem list \<Rightarrow> (objectId \<rightharpoonup> product)" where
  "restoreStock P [] = P"
| "restoreStock P (item # items) = restoreStock (incStock P (productId item) (quantity item)) items"

text \<open>\<open>cancelOrder\<close>.\<close>

definition cancelOrder :: "db \<Rightarrow> objectId \<Rightarrow> (error + order) \<times> db" where
  "cancelOrder s orderId =
     (case getOrderById s orderId of
        Inl e \<Rightarrow> (Inl e, s)
      | Inr ord \<Rightarrow>
          if status ord = ''completed'' \<or> status ord = ''cancelled''
          then (Inl (ApiError BAD_REQUEST), s)
          else
            let ord1 = ord\<lparr>status := ''cancelled''\<rparr>;
                s1 = s\<lparr>Product := restoreStock (Product s) (products ord1)\<rparr>
            in (case order_save s1 orderId ord1 of (ord2, s2) \<Rightarrow> (Inr ord2, s2)))"

section \<open>Promotion redemption (promotion.model.js)\<close>

text \<open>The fields of a JavaScript \<open>Date\<close> that \<open>applyPromotion\<close> reads, in local time:
  \<open>getFullYear()\<close>, \<open>getMonth()\<close> (0 to 11) and \<open>getDate()\<close> (1 to 31).\<close>

record jsDate =
  getFullYear :: nat
  getMonth :: nat
  getDate :: nat

text \<open>The decimal text that a template literal gives a non-negative integer.\<close>

definition digit :: "nat \<Rightarrow> char" where
  "digit d = ''0123456789'' ! d"

fun showNat :: "nat \<Rightarrow> string" where
  "showNat n = (if n < 10 then [digit n] else showNat (n div 10) @ [digit (n mod 10)])"

declare showNat.simps [simp del]

text \<open>\<open>m.set(k, (m.get(k) || 0) + 1)\<close> on a Mongoose map of numbers.\<close>

definition bumpCounter :: "(string \<rightharpoonup> real) \<Rightarrow> string \<Rightarrow> (string \<rightharpoonup> real)" where
  "bumpCounter m k = m(k \<mapsto> (case m k of None \<Rightarrow> 0 | Some v \<Rightarrow> if v = 0 then 0 else v) + 1)"

text \<open>The value of a counter, as \<open>m.get(k) || 0\<close> reads it.\<close>

definition counterValue :: "(string \<rightharpoonup> real) \<Rightarrow> string \<Rightarrow> real" where
  "counterValue m k = (case m k of None \<Rightarrow> 0 | Some v \<Rightarrow> v)"

text \<open>The keys of the counters, built by template literals: the year, a hyphen and
  \<open>Math.ceil(now.getDate() / 7)\<close>; the year, a hyphen and \<open>now.getMonth() + 1\<close>; the
  year alone.\<close>

definition currentWeek :: "jsDate \<Rightarrow> string" where
  "currentWeek now = showNat (getFullYear now) @ ''-'' @ showNat (nat \<lceil>real (getDate now) / 7\<rceil>)"

definition currentMonth :: "jsDate \<Rightarrow> string" where
  "currentMonth now = showNat (getFullYear now) @ ''-'' @ showNat (getMonth now + 1)"

definition currentYear :: "jsDate \<Rightarrow> string" where
  "currentYear now = showNat (getFullYear now)"

text \<open>\<open>applyPromotion\<close> on a promotion document: \<open>t\<close> is the clock as \<open>isValid\<close> reads
  it, \<open>now\<close> the date read for the statistics. The result pairs the error thrown, if
  any, with the document as the call leaves it. The \<open>date\<close> that the schema adds to a
  redemption record by default is not modelled.\<close>

definition applyPromotion :: "promotion \<Rightarrow> int \<Rightarrow> jsDate \<Rightarrow> objectId \<Rightarrow> objectId \<Rightarrow> error option \<times> promotion" where
  "applyPromotion this t now userId orderId =
     (if \<not> isValid t this then (Some Error, this)
      else (None,
            this\<lparr>usedCount := usedCount this + 1,
                 redemptionHistory := redemptionHistory this @ [(userId, orderId)],
                 weekly := bumpCounter (weekly this) (currentWeek now),
                 monthly := bumpCounter (monthly this) (currentMonth now),
                 yearly := bumpCounter (yearly this) (currentYear now)\<rparr>))"

section \<open>Review model (review.model.js)\<close>

text \<open>The weekly key of \<open>updateStats\<close>, the period counter of the review model: the
  year, \<open>-W\<close> and \<open>Math.ceil(now.getDate() / 7)\<close>.\<close>

definition weekKey :: "jsDate \<Rightarrow> string" where
  "weekKey now = showNat (getFullYear now) @ ''-W'' @ showNat (nat \<lceil>real (getDate now) / 7\<rceil>)"

section \<open>Promotion service\<close>

text \<open>The query of \<open>findBestPromotion\<close>: \<open>Promotion.find({ isActive: true,
  applicableProducts: { $in: products.map((p) => p.productId) } })\<close>.\<close>

definition applicablePromotions :: "promotion list \<Rightarrow> lineItem list \<Rightarrow> promotion list" where
  "applicablePromotions ps items =
     filter (\<lambda>p. isActive p \<and> list_ex (\<lambda>x. x \<in> set (map productId items)) (applicableProducts p)) ps"

text \<open>The double-precision arithmetic of the JavaScript engine is not code of the
  repository: the three operations that the discount uses are parameters. Each
  takes two doubles and returns the rounded result, a double; doubles are real
  numbers and are compared as such (infinities and NaN are left out).\<close>

record doubleOps =
  dadd :: "real \<Rightarrow> real \<Rightarrow> real"
  dmul :: "real \<Rightarrow> real \<Rightarrow> real"
  ddiv :: "real \<Rightarrow> real \<Rightarrow> real"

text \<open>The discount that the loop body computes for one promotion:
  \<open>(products.reduce((sum, p) => sum + p.price * p.quantity, 0) * promo.discountValue) / 100\<close>
  for the percentage type, \<open>promo.discountValue\<close> for the fixed type, and the initial 0
  otherwise.\<close>

definition promoDiscount :: "doubleOps \<Rightarrow> lineItem list \<Rightarrow> promotion \<Rightarrow> real" where
  "promoDiscount ops items promo =
     (if discountType promo = ''percentage''
      then ddiv ops
             (dmul ops (foldl (\<lambda>sum p. dadd ops sum (dmul ops (price p) (quantity p))) 0 items)
                (discountValue promo))
             100
      else if discountType promo = ''fixed'' then discountValue promo
      else 0)"

text \<open>The loop of \<open>findBestPromotion\<close> over the pair \<open>(bestPromotion, maxDiscount)\<close>.\<close>

fun selectBest :: "doubleOps \<Rightarrow> lineItem list \<Rightarrow> promotion list \<Rightarrow> promotion option \<times> real \<Rightarrow> promotion option \<times> real" where
  "selectBest ops items [] (bestPromotion, maxDiscount) = (bestPromotion, maxDiscount)"
| "selectBest ops items (promo # rest) (bestPromotion, maxDiscount) =
     (let discount = promoDiscount ops items promo
      in if discount > maxDiscount then selectBest ops items rest (Some promo, discount)
         else selectBest ops items rest (bestPromotion, maxDiscount))"

definition findBestPromotion :: "doubleOps \<Rightarrow> promotion list \<Rightarrow> objectId \<Rightarrow> lineItem list \<Rightarrow> promotion option" where
  "findBestPromotion ops ps userId items =
     fst (selectBest ops items (applicablePromotions ps items) (None, 0))"

section \<open>Courier service (livreur.service.js)\<close>

text \<open>\<open>acceptDelivery\<close>.\<close>

definition acceptDelivery :: "db \<Rightarrow> objectId \<Rightarrow> objectId \<Rightarrow> (error + delivery) \<times> db" where
  "acceptDelivery s livreurId deliveryId =
     (case (Livreur s livreurId, Delivery s deliveryId) of
        (Some liv, Some del) \<Rightarrow>
          if delivery_status del \<noteq> ''pending'' then (Inl (ApiError CONFLICT), s)
          else
            let del' = del\<lparr>delivery_status := ''in_progress'', livreur := Some livreurId\<rparr>;
                liv' = liv\<lparr>deliveriesAssigned := deliveriesAssigned liv @ [deliveryId]\<rparr>;
                s1 = s\<lparr>Delivery := (Delivery s)(deliveryId \<mapsto> del')\<rparr>;
                s2 = s1\<lparr>Livreur := (Livreur s1)(livreurId \<mapsto> liv')\<rparr>
            in (Inr del', s2)
      | _ \<Rightarrow> (Inl (ApiError NOT_FOUND), s))"

section \<open>Example documents\<close>

text \<open>A small store used to run the operations on concrete requests: two products,
  one valid ten-percent promotion, two orders, two deliveries and two couriers.\<close>

definition promo10 :: promotion where
  "promo10 =
     \<lparr>p_id = ''promo10'', code = ''TEN'', discountType = ''percentage'', discountValue = 10,
      expirationDate = None, usageLimit = 5, usedCount = 0, isActive = True,
      redemptionHistory = [], applicableProducts = [''p1''],
      weekly = Map.empty, monthly = Map.empty, yearly = Map.empty\<rparr>"

definition shop_db :: db where
  "shop_db =
     \<lparr>Product = [''p1'' \<mapsto> \<lparr>name = ''tea'', stock = 5\<rparr>, ''p2'' \<mapsto> \<lparr>name = ''mug'', stock = 1\<rparr>],
      Promotion = [promo10],
      Order = Map.empty, Delivery = Map.empty, Livreur = Map.empty\<rparr>"

definition tea_order :: orderBody where
  "tea_order =
     \<lparr>merchant = ''m1'', products = [\<lparr>productId = ''p1'', quantity = 2, price = 10\<rparr>],
      promotion = Some ''promo10'', totalPrice = 20\<rparr>"

definition two_item_order :: orderBody where
  "two_item_order =
     \<lparr>merchant = ''m1'',
      products = [\<lparr>productId = ''gone'', quantity = 1, price = 3\<rparr>,
                  \<lparr>productId = ''p2'', quantity = 4, price = 7\<rparr>],
      promotion = None, totalPrice = 31\<rparr>"

definition tea_placed :: order where
  "tea_placed =
     \<lparr>merchant = ''m1'', products = [\<lparr>productId = ''p1'', quantity = 2, price = 10\<rparr>],
      promotion = None, totalPrice = 20, client = ''c1'', status = ''pending'', revenue = 20\<rparr>"

definition placed_db :: db where
  "placed_db =
     \<lparr>Product = [''p1'' \<mapsto> \<lparr>name = ''tea'', stock = 3\<rparr>],
      Promotion = [],
      Order = [''o1'' \<mapsto> tea_placed, ''o2'' \<mapsto> tea_placed\<lparr>status := ''completed''\<rparr>],
      Delivery = [''d1'' \<mapsto> \<lparr>order_ref = ''o1'', livreur = None, delivery_status = ''pending''\<rparr>,
                  ''d2'' \<mapsto> \<lparr>order_ref = ''o2'', livreur = Some ''l2'', delivery_status = ''in_progress''\<rparr>],
      Livreur = [''l1'' \<mapsto> \<lparr>isAvailable = True, deliveriesAssigned = []\<rparr>,
                 ''l2'' \<mapsto> \<lparr>isAvailable = True, deliveriesAssigned = [''d2'']\<rparr>]\<rparr>"

text \<open>The operations without rounding. Double arithmetic agrees with them wherever the
  exact result is a double, as it is for the small integers of the examples
  below.\<close>

definition exactOps :: doubleOps where
  "exactOps = \<lparr>dadd = (+), dmul = (*), ddiv = (/)\<rparr>"

definition nov3 :: jsDate where
  "nov3 = \<lparr>getFullYear = 2026, getMonth = 10, getDate = 3\<rparr>"

definition fixed5 :: promotion where
  "fixed5 = promo10\<lparr>p_id := ''fixed5'', code := ''FIVE'', discountType := ''fixed'', discountValue := 5\<rparr>"

definition fixed7 :: promotion where
  "fixed7 = promo10\<lparr>p_id := ''fixed7'', code := ''SEVEN'', discountType := ''fixed'',
     discountValue := 7, applicableProducts := [''p9'']\<rparr>"

definition fifty_items :: "lineItem list" where
  "fifty_items = [\<lparr>productId = ''p1'', quantity = 5, price = 10\<rparr>]"

definition free_items :: "lineItem list" where
  "free_items = [\<lparr>productId = ''p1'', quantity = 1, price = 0\<rparr>]"

section \<open>Stock updates\<close>

lemma incStock_apply:
  "incStock P i d j = (if i = j then map_option (\<lambda>pr. pr\<lparr>stock := stock pr + d\<rparr>) (P j) else P j)"
  by (simp add: incStock_def split: option.splits)

text \<open>The net effect of the decrement loop on one product: its stock falls by the
  quantities of the line items that name it.\<close>

lemma reduceStock_apply:
  "reduceStock P items i =
     map_option (\<lambda>pr. pr\<lparr>stock := stock pr -
        sum_list (map quantity (filter (\<lambda>it. productId it = i) items))\<rparr>) (P i)"
proof (induction items arbitrary: P)
  case Nil
  show ?case by (cases "P i") simp_all
next
  case (Cons item items)
  show ?case by (cases "P i") (simp_all add: Cons.IH incStock_apply algebra_simps)
qed

lemma restoreStock_apply:
  "restoreStock P items i =
     map_option (\<lambda>pr. pr\<lparr>stock := stock pr +
        sum_list (map quantity (filter (\<lambda>it. productId it = i) items))\<rparr>) (P i)"
proof (induction items arbitrary: P)
  case Nil
  show ?case by (cases "P i") simp_all
next
  case (Cons item items)
  show ?case by (cases "P i") (simp_all add: Cons.IH incStock_apply algebra_simps)
qed

section \<open>Order placement\<close>

lemma checkAvailability_None_iff:
  "checkAvailability P items = None \<longleftrightarrow>
     (\<forall>item \<in> set items. \<exists>pr. P (productId item) = Some pr \<and> \<not> stock pr < quantity item)"
  by (induction items) (auto split: option.splits)

lemma checkAvailability_error:
  "checkAvailability P items = Some e \<Longrightarrow> e = ApiError NOT_FOUND \<or> e = ApiError BAD_REQUEST"
  by (induction items) (auto split: option.splits if_splits)

lemma checkAvailability_all_found:
  "checkAvailability P items = Some e \<Longrightarrow> \<forall>item \<in> set items. P (productId item) \<noteq> None
     \<Longrightarrow> e = ApiError BAD_REQUEST"
  by (induction items) (auto split: option.splits if_splits)

lemma createOrder_rejected:
  "checkAvailability (Product s) (products ob) = Some e \<Longrightarrow>
     createOrder s now newId clientId ob = (Inl e, s)"
  by (simp add: createOrder_def)

lemma applyOrderPromotion_products:
  "applyOrderPromotion ps now ob = Inr ob1 \<Longrightarrow> products ob1 = products ob"
  by (auto simp: applyOrderPromotion_def split: option.splits if_splits)

text \<open>Whatever the promotion block assigned, the total that is persisted is the plain
  sum over the line items: the assignment after the block overwrites it.\<close>

lemma createOrder_totalPrice:
  "fst (createOrder s now newId clientId ob) = Inr ord \<Longrightarrow>
     totalPrice ord = calculateOrderTotal (products ob)"
  by (auto simp: createOrder_def Let_def Order_create_def preSave_def orderBody.defs order.defs
        dest: applyOrderPromotion_products split: option.splits sum.splits)

lemma createOrder_stock:
  "fst (createOrder s now newId clientId ob) = Inr ord \<Longrightarrow>
     Product (snd (createOrder s now newId clientId ob)) i =
       map_option (\<lambda>pr. pr\<lparr>stock := stock pr -
          sum_list (map quantity (filter (\<lambda>it. productId it = i) (products ob)))\<rparr>) (Product s i)"
  by (auto simp: createOrder_def Let_def Order_create_def preSave_def orderBody.defs order.defs
        reduceStock_apply dest: applyOrderPromotion_products split: option.splits sum.splits)

text \<open>
  C1. An order for two units at price 10 with the valid ten-percent promotion
  \<open>promo10\<close>: the sum over the line items is 20 and the discounted total would be 18.
  The order that \<open>createOrder\<close> persists has \<open>totalPrice\<close> 20, the undiscounted sum;
  the stock of the product falls from 5 to 3, by the ordered quantity.
\<close>

theorem createOrder_discount_overwritten:
  "isValid 0 promo10
   \<and> calculateOrderTotal (products tea_order)
       - calculateOrderTotal (products tea_order) * discountValue promo10 / 100 = 18
   \<and> map_option totalPrice (Order (snd (createOrder shop_db 0 ''o1'' ''c1'' tea_order)) ''o1'') = Some 20
   \<and> map_option stock (Product (snd (createOrder shop_db 0 ''o1'' ''c1'' tea_order)) ''p1'') = Some 3"
  by (simp add: shop_db_def tea_order_def promo10_def createOrder_def Let_def Order_create_def preSave_def
        applyOrderPromotion_def findPromotionById_def isValid_def calculateOrderTotal_def
        orderBody.defs order.defs incStock_def)

text \<open>
  C2, as stated: every request with a line item whose quantity exceeds the stock of
  its product fails with \<open>BAD_REQUEST\<close>. It fails on a request whose first line item
  names a product that does not exist: the loop throws \<open>NOT_FOUND\<close> there, before it
  reaches the line item that is short of stock.
\<close>

theorem createOrder_insufficient_stock_counterexample:
  "\<not> (\<forall>s now newId clientId ob.
        (\<exists>item \<in> set (products ob). \<exists>pr.
            Product s (productId item) = Some pr \<and> stock pr < quantity item)
        \<longrightarrow> fst (createOrder s now newId clientId ob) = Inl (ApiError BAD_REQUEST))"
proof
  assume a: "\<forall>s now newId clientId ob.
        (\<exists>item \<in> set (products ob). \<exists>pr.
            Product s (productId item) = Some pr \<and> stock pr < quantity item)
        \<longrightarrow> fst (createOrder s now newId clientId ob) = Inl (ApiError BAD_REQUEST)"
  have "\<exists>item \<in> set (products two_item_order). \<exists>pr.
          Product shop_db (productId item) = Some pr \<and> stock pr < quantity item"
    by (simp add: two_item_order_def shop_db_def)
  with a have "fst (createOrder shop_db 0 ''o1'' ''c1'' two_item_order) = Inl (ApiError BAD_REQUEST)"
    by blast
  moreover have "fst (createOrder shop_db 0 ''o1'' ''c1'' two_item_order) = Inl (ApiError NOT_FOUND)"
    by (simp add: createOrder_def two_item_order_def shop_db_def)
  ultimately show False by simp
qed

text \<open>The availability loop stops at the first line item that fails its check, and
  that line item decides the error: \<open>NOT_FOUND\<close> when its product is missing,
  \<open>BAD_REQUEST\<close> when its product is short of stock.\<close>

lemma checkAvailability_first_failing:
  assumes "\<forall>it \<in> set pre. \<exists>p. P (productId it) = Some p \<and> \<not> stock p < quantity it"
  shows "checkAvailability P (pre @ bad # post) =
           (case P (productId bad) of
              None \<Rightarrow> Some (ApiError NOT_FOUND)
            | Some p \<Rightarrow> if stock p < quantity bad then Some (ApiError BAD_REQUEST)
                        else checkAvailability P post)"
  using assms by (induction pre) auto

lemma checkAvailability_split:
  "checkAvailability P items = Some e \<Longrightarrow>
     \<exists>pre bad post. items = pre @ bad # post
       \<and> (\<forall>it \<in> set pre. \<exists>p. P (productId it) = Some p \<and> \<not> stock p < quantity it)
       \<and> (P (productId bad) = None \<or> (\<exists>p. P (productId bad) = Some p \<and> stock p < quantity bad))"
proof (induction items)
  case Nil
  then show ?case by simp
next
  case (Cons x xs)
  show ?case
  proof (cases "\<exists>p. P (productId x) = Some p \<and> \<not> stock p < quantity x")
    case True
    with Cons.prems have "checkAvailability P xs = Some e" by auto
    from Cons.IH [OF this] obtain pre bad post where
      h: "xs = pre @ bad # post"
        "\<forall>it \<in> set pre. \<exists>p. P (productId it) = Some p \<and> \<not> stock p < quantity it"
        "P (productId bad) = None \<or> (\<exists>p. P (productId bad) = Some p \<and> stock p < quantity bad)"
      by blast
    have "x # xs = (x # pre) @ bad # post" using h(1) by simp
    moreover have "\<forall>it \<in> set (x # pre). \<exists>p. P (productId it) = Some p \<and> \<not> stock p < quantity it"
      using True h(2) by simp
    ultimately show ?thesis using h(3) by blast
  next
    case False
    then have "P (productId x) = None \<or> (\<exists>p. P (productId x) = Some p \<and> stock p < quantity x)"
      by (cases "P (productId x)") auto
    moreover have "x # xs = [] @ x # xs" by simp
    ultimately show ?thesis by (metis empty_iff empty_set)
  qed
qed

text \<open>
  C2, amended. A request with a line item whose quantity exceeds the stock of its
  product fails and leaves the whole store as it was: no order is persisted and no
  stock changes. The error is the one that the first failing line item raises:
  the line items split into a prefix that passes the check, a line item \<open>bad\<close> that
  fails it, and the rest; the error is \<open>NOT_FOUND\<close> when the product of \<open>bad\<close> is
  missing and \<open>BAD_REQUEST\<close> when it is short of stock (so it is \<open>BAD_REQUEST\<close> when
  the product of every line item exists).
\<close>

theorem createOrder_insufficient_stock_fails:
  assumes "item \<in> set (products ob)" and "Product s (productId item) = Some pr"
    and "stock pr < quantity item"
  shows "\<exists>pre bad post. products ob = pre @ bad # post
       \<and> (\<forall>it \<in> set pre. \<exists>p. Product s (productId it) = Some p \<and> \<not> stock p < quantity it)
       \<and> ((Product s (productId bad) = None
             \<and> createOrder s now newId clientId ob = (Inl (ApiError NOT_FOUND), s))
          \<or> ((\<exists>p. Product s (productId bad) = Some p \<and> stock p < quantity bad)
             \<and> createOrder s now newId clientId ob = (Inl (ApiError BAD_REQUEST), s)))"
proof -
  from assms have "checkAvailability (Product s) (products ob) \<noteq> None"
    unfolding checkAvailability_None_iff by force
  then obtain e where e: "checkAvailability (Product s) (products ob) = Some e" by blast
  from checkAvailability_split [OF e] obtain pre bad post where
    h: "products ob = pre @ bad # post"
      "\<forall>it \<in> set pre. \<exists>p. Product s (productId it) = Some p \<and> \<not> stock p < quantity it"
      "Product s (productId bad) = None
         \<or> (\<exists>p. Product s (productId bad) = Some p \<and> stock p < quantity bad)"
    by blast
  have c: "checkAvailability (Product s) (products ob) =
      (case Product s (productId bad) of
         None \<Rightarrow> Some (ApiError NOT_FOUND)
       | Some p \<Rightarrow> if stock p < quantity bad then Some (ApiError BAD_REQUEST)
                   else checkAvailability (Product s) post)"
    unfolding h(1) by (rule checkAvailability_first_failing [OF h(2)])
  from h(3) show ?thesis
  proof
    assume n: "Product s (productId bad) = None"
    then have "createOrder s now newId clientId ob = (Inl (ApiError NOT_FOUND), s)"
      using c by (intro createOrder_rejected) simp
    with h(1,2) n show ?thesis by blast
  next
    assume b: "\<exists>p. Product s (productId bad) = Some p \<and> stock p < quantity bad"
    then have "createOrder s now newId clientId ob = (Inl (ApiError BAD_REQUEST), s)"
      using c by (intro createOrder_rejected) auto
    with h(1,2) b show ?thesis by blast
  qed
qed

theorem createOrder_insufficient_stock_fails_witness:
  "createOrder shop_db 0 ''o1'' ''c1'' two_item_order = (Inl (ApiError NOT_FOUND), shop_db)
   \<and> createOrder shop_db 0 ''o1'' ''c1'' (two_item_order\<lparr>products := tl (products two_item_order)\<rparr>)
       = (Inl (ApiError BAD_REQUEST), shop_db)"
proof -
  let ?gone = "\<lparr>productId = ''gone'', quantity = 1, price = 3\<rparr>"
  let ?mug = "\<lparr>productId = ''p2'', quantity = 4, price = 7\<rparr>"
  let ?ob = "two_item_order\<lparr>products := tl (products two_item_order)\<rparr>"
  have ps: "products two_item_order = [?gone, ?mug]" and ps': "products ?ob = [?mug]"
    by (simp_all add: two_item_order_def)
  have m: "?mug \<in> set (products two_item_order)" and m': "?mug \<in> set (products ?ob)"
    by (simp_all add: ps ps')
  have p: "Product shop_db (productId ?mug) = Some \<lparr>name = ''mug'', stock = 1\<rparr>"
    and g: "Product shop_db (productId ?gone) = None"
    by (simp_all add: shop_db_def)
  have q: "stock \<lparr>name = ''mug'', stock = 1\<rparr> < quantity ?mug"
    by simp
  from createOrder_insufficient_stock_fails [OF m p q, of 0 "''o1''" "''c1''"]
  obtain pre bad post where
    h: "[?gone, ?mug] = pre @ bad # post"
      "\<forall>it \<in> set pre. \<exists>p. Product shop_db (productId it) = Some p \<and> \<not> stock p < quantity it"
      "(Product shop_db (productId bad) = None
          \<and> createOrder shop_db 0 ''o1'' ''c1'' two_item_order = (Inl (ApiError NOT_FOUND), shop_db))
       \<or> ((\<exists>p. Product shop_db (productId bad) = Some p \<and> stock p < quantity bad)
          \<and> createOrder shop_db 0 ''o1'' ''c1'' two_item_order = (Inl (ApiError BAD_REQUEST), shop_db))"
    unfolding ps by blast
  have "pre = []"
  proof (cases pre)
    case Nil
    then show ?thesis .
  next
    case (Cons y ys)
    with h(1) have "y = ?gone" by simp
    with h(2) Cons g show ?thesis by simp
  qed
  with h(1) have "bad = ?gone" by simp
  with h(3) g have first: "createOrder shop_db 0 ''o1'' ''c1'' two_item_order
      = (Inl (ApiError NOT_FOUND), shop_db)"
    by simp
  from createOrder_insufficient_stock_fails [OF m' p q, of 0 "''o1''" "''c1''"]
  obtain pre' bad' post' where
    h': "[?mug] = pre' @ bad' # post'"
      "(Product shop_db (productId bad') = None
          \<and> createOrder shop_db 0 ''o1'' ''c1'' ?ob = (Inl (ApiError NOT_FOUND), shop_db))
       \<or> ((\<exists>p. Product shop_db (productId bad') = Some p \<and> stock p < quantity bad')
          \<and> createOrder shop_db 0 ''o1'' ''c1'' ?ob = (Inl (ApiError BAD_REQUEST), shop_db))"
    unfolding ps' by blast
  from h'(1) have "bad' = ?mug"
    by (cases pre') simp_all
  with h'(2) p have "createOrder shop_db 0 ''o1'' ''c1'' ?ob = (Inl (ApiError BAD_REQUEST), shop_db)"
    by simp
  with first show ?thesis by simp
qed

text \<open>
  C10. \<open>createOrder\<close> leaves the promotion collection as it was, whether it throws or
  places the order: no promotion's \<open>usedCount\<close>, \<open>redemptionHistory\<close> or period
  counters change.
\<close>

theorem createOrder_promotion_unchanged:
  "Promotion (snd (createOrder s now newId clientId ob)) = Promotion s"
  by (simp add: createOrder_def Let_def split: option.splits sum.splits)

theorem createOrder_promotion_unchanged_witness:
  "promotion tea_order = Some (p_id promo10) \<and> isValid 0 promo10
   \<and> Promotion (snd (createOrder shop_db 0 ''o1'' ''c1'' tea_order)) = [promo10]"
  using createOrder_promotion_unchanged [of shop_db 0 "''o1''" "''c1''" tea_order]
  by (simp add: shop_db_def tea_order_def promo10_def isValid_def)

section \<open>Order lifecycle\<close>

text \<open>
  C3. For an order that exists: when its status is \<open>completed\<close> or \<open>cancelled\<close>,
  \<open>cancelOrder\<close> throws \<open>BAD_REQUEST\<close> and the store is unchanged; in any other status
  the saved order has status \<open>cancelled\<close>, and the stock of every product has grown
  by the quantities of the order's line items that name it.
\<close>

theorem cancelOrder_terminal_or_restock:
  assumes "Order s orderId = Some ord"
  shows "(status ord = ''completed'' \<or> status ord = ''cancelled'' \<longrightarrow>
            cancelOrder s orderId = (Inl (ApiError BAD_REQUEST), s))
       \<and> (status ord \<noteq> ''completed'' \<and> status ord \<noteq> ''cancelled'' \<longrightarrow>
            (\<exists>ord'. fst (cancelOrder s orderId) = Inr ord' \<and> status ord' = ''cancelled''
                \<and> products ord' = products ord
                \<and> Order (snd (cancelOrder s orderId)) orderId = Some ord')
          \<and> (\<forall>i. Product (snd (cancelOrder s orderId)) i =
                 map_option (\<lambda>pr. pr\<lparr>stock := stock pr +
                    sum_list (map quantity (filter (\<lambda>it. productId it = i) (products ord)))\<rparr>)
                   (Product s i)))"
  using assms
  by (simp add: cancelOrder_def getOrderById_def order_save_def preSave_def Let_def restoreStock_apply)

theorem cancelOrder_terminal_or_restock_witness:
  "cancelOrder placed_db ''o2'' = (Inl (ApiError BAD_REQUEST), placed_db)
   \<and> map_option status (Order (snd (cancelOrder placed_db ''o1'')) ''o1'') = Some ''cancelled''
   \<and> map_option stock (Product (snd (cancelOrder placed_db ''o1'')) ''p1'') = Some 5"
proof -
  have o1: "Order placed_db ''o1'' = Some tea_placed"
    and o2: "Order placed_db ''o2'' = Some (tea_placed\<lparr>status := ''completed''\<rparr>)"
    and p: "Product placed_db ''p1'' = Some \<lparr>name = ''tea'', stock = 3\<rparr>"
    by (simp_all add: placed_db_def)
  have st: "status tea_placed = ''pending''"
    "products tea_placed = [\<lparr>productId = ''p1'', quantity = 2, price = 10\<rparr>]"
    by (simp_all add: tea_placed_def)
  show ?thesis
    using cancelOrder_terminal_or_restock [OF o1] cancelOrder_terminal_or_restock [OF o2] p st
    by auto
qed

text \<open>\<open>updateOrderStatus\<close> does not read the current status: for an order that exists,
  a new status among the five valid values is stored whatever the current status
  is, and any other value is rejected with \<open>BAD_REQUEST\<close>, the store unchanged.\<close>

lemma updateOrderStatus_stores:
  assumes "Order s orderId = Some ord"
  shows "(newStatus \<in> set orderStatuses \<longrightarrow>
           fst (updateOrderStatus s orderId newStatus) =
              Inr (ord\<lparr>status := newStatus, revenue := calculateOrderTotal (products ord)\<rparr>)
           \<and> snd (updateOrderStatus s orderId newStatus) =
              s\<lparr>Order := (Order s)(orderId \<mapsto>
                  ord\<lparr>status := newStatus, revenue := calculateOrderTotal (products ord)\<rparr>)\<rparr>)
       \<and> (newStatus \<notin> set orderStatuses \<longrightarrow>
           updateOrderStatus s orderId newStatus = (Inl (ApiError BAD_REQUEST), s))"
  using assms
  by (simp add: updateOrderStatus_def order_save_def preSave_def Let_def calculateOrderTotal_def)

text \<open>
  C7. The order \<open>o2\<close> is \<open>completed\<close>, a terminal state. \<open>cancelOrder\<close> refuses it with
  \<open>BAD_REQUEST\<close> and leaves the store unchanged, but \<open>updateOrderStatus\<close> with the new
  status \<open>pending\<close> succeeds and stores \<open>pending\<close>: the call changes the status of an
  order in a terminal state.
\<close>

theorem updateOrderStatus_leaves_terminal_state:
  "map_option status (Order placed_db ''o2'') = Some ''completed''
   \<and> cancelOrder placed_db ''o2'' = (Inl (ApiError BAD_REQUEST), placed_db)
   \<and> map_sum id status (fst (updateOrderStatus placed_db ''o2'' ''pending'')) = Inr ''pending''
   \<and> map_option status (Order (snd (updateOrderStatus placed_db ''o2'' ''pending'')) ''o2'')
       = Some ''pending''"
  by (simp add: updateOrderStatus_def cancelOrder_def getOrderById_def placed_db_def tea_placed_def
      orderStatuses_def order_save_def preSave_def Let_def)

section \<open>Delivery acceptance\<close>

text \<open>
  C5. For a courier and a delivery that both exist: when the delivery is not
  \<open>pending\<close>, \<open>acceptDelivery\<close> throws \<open>CONFLICT\<close> and the store is unchanged; when it
  is \<open>pending\<close>, the saved delivery has status \<open>in_progress\<close> and the courier as its
  \<open>livreur\<close>, and the delivery is appended to the courier's \<open>deliveriesAssigned\<close>.
\<close>

theorem acceptDelivery_conflict_or_assign:
  assumes "Livreur s livreurId = Some liv" and "Delivery s deliveryId = Some del"
  shows "(delivery_status del \<noteq> ''pending'' \<longrightarrow>
            acceptDelivery s livreurId deliveryId = (Inl (ApiError CONFLICT), s))
       \<and> (delivery_status del = ''pending'' \<longrightarrow>
            acceptDelivery s livreurId deliveryId =
              (Inr (del\<lparr>delivery_status := ''in_progress'', livreur := Some livreurId\<rparr>),
               s\<lparr>Delivery := (Delivery s)(deliveryId \<mapsto>
                      del\<lparr>delivery_status := ''in_progress'', livreur := Some livreurId\<rparr>),
                  Livreur := (Livreur s)(livreurId \<mapsto>
                      liv\<lparr>deliveriesAssigned := deliveriesAssigned liv @ [deliveryId]\<rparr>)\<rparr>))"
  using assms by (simp add: acceptDelivery_def Let_def)

theorem acceptDelivery_conflict_or_assign_witness:
  "acceptDelivery placed_db ''l1'' ''d2'' = (Inl (ApiError CONFLICT), placed_db)
   \<and> map_option livreur (Delivery (snd (acceptDelivery placed_db ''l1'' ''d1'')) ''d1'') = Some (Some ''l1'')
   \<and> map_option delivery_status (Delivery (snd (acceptDelivery placed_db ''l1'' ''d1'')) ''d1'')
       = Some ''in_progress''
   \<and> map_option deliveriesAssigned (Livreur (snd (acceptDelivery placed_db ''l1'' ''d1'')) ''l1'')
       = Some [''d1'']"
proof -
  have l: "Livreur placed_db ''l1'' = Some \<lparr>isAvailable = True, deliveriesAssigned = []\<rparr>"
    and d1: "Delivery placed_db ''d1'' =
      Some \<lparr>order_ref = ''o1'', livreur = None, delivery_status = ''pending''\<rparr>"
    and d2: "Delivery placed_db ''d2'' =
      Some \<lparr>order_ref = ''o2'', livreur = Some ''l2'', delivery_status = ''in_progress''\<rparr>"
    by (simp_all add: placed_db_def)
  show ?thesis
    using acceptDelivery_conflict_or_assign [OF l d1] acceptDelivery_conflict_or_assign [OF l d2]
    by simp
qed

section \<open>Promotion validity and redemption\<close>

text \<open>
  C4. \<open>isValid\<close> holds exactly when the promotion is active, its \<open>usedCount\<close> is below
  its \<open>usageLimit\<close>, and it has no expiration date or the clock is at or before it.
\<close>

theorem isValid_iff:
  "isValid now p \<longleftrightarrow>
     isActive p \<and> usedCount p < usageLimit p
     \<and> (expirationDate p = None \<or> (\<exists>e. expirationDate p = Some e \<and> now \<le> e))"
  by (auto simp: isValid_def split: option.splits)

theorem isValid_iff_witness:
  "isValid 0 promo10 \<and> \<not> isValid 0 (promo10\<lparr>usedCount := 5\<rparr>)
   \<and> \<not> isValid 0 (promo10\<lparr>isActive := False\<rparr>)
   \<and> isValid 1000 (promo10\<lparr>expirationDate := Some 1000\<rparr>)
   \<and> \<not> isValid 1001 (promo10\<lparr>expirationDate := Some 1000\<rparr>)"
  using isValid_iff [of 0 promo10] isValid_iff [of 0 "promo10\<lparr>usedCount := 5\<rparr>"]
    isValid_iff [of 0 "promo10\<lparr>isActive := False\<rparr>"]
    isValid_iff [of 1000 "promo10\<lparr>expirationDate := Some 1000\<rparr>"]
    isValid_iff [of 1001 "promo10\<lparr>expirationDate := Some 1000\<rparr>"]
  by (simp add: promo10_def)

lemma ceiling_sevenths: "nat \<lceil>real d / 7\<rceil> = (d + 6) div 7"
proof -
  define q where "q = (d + 6) div 7"
  have a: "7 * q \<le> d + 6" and b: "d + 6 < 7 * q + 7"
    unfolding q_def by arith+
  have "real_of_int (int q) - 1 < real d / 7"
    using a by (simp add: field_simps)
  moreover have "real d / 7 \<le> real_of_int (int q)"
    using b by (simp add: field_simps)
  ultimately have "\<lceil>real d / 7\<rceil> = int q"
    by (rule ceiling_unique)
  then show ?thesis by (simp add: q_def)
qed

lemma bumpCounter_eq: "bumpCounter m k = m(k \<mapsto> counterValue m k + 1)"
  by (simp add: bumpCounter_def counterValue_def split: option.splits)

text \<open>When \<open>isValid\<close> is false, \<open>applyPromotion\<close> throws and leaves the document as it
  was. When it is true, the saved document differs from the old one in exactly
  this: \<open>usedCount\<close> is one higher, one redemption record is appended, and one
  counter is incremented in each of the weekly, monthly and yearly maps, under the
  keys year-\<open>n\<close> with \<open>n\<close> the day of the month divided by 7 and rounded up,
  year-month with the month counted from 1, and the year.\<close>

lemma applyPromotion_effect:
  "(\<not> isValid t this \<longrightarrow> applyPromotion this t now userId orderId = (Some Error, this))
   \<and> (isValid t this \<longrightarrow>
        applyPromotion this t now userId orderId =
          (None,
           this\<lparr>usedCount := usedCount this + 1,
                redemptionHistory := redemptionHistory this @ [(userId, orderId)],
                weekly := (weekly this)
                  (showNat (getFullYear now) @ ''-'' @ showNat ((getDate now + 6) div 7) \<mapsto>
                     counterValue (weekly this)
                       (showNat (getFullYear now) @ ''-'' @ showNat ((getDate now + 6) div 7)) + 1),
                monthly := (monthly this)
                  (showNat (getFullYear now) @ ''-'' @ showNat (getMonth now + 1) \<mapsto>
                     counterValue (monthly this)
                       (showNat (getFullYear now) @ ''-'' @ showNat (getMonth now + 1)) + 1),
                yearly := (yearly this)
                  (showNat (getFullYear now) \<mapsto>
                     counterValue (yearly this) (showNat (getFullYear now)) + 1)\<rparr>))"
  by (simp add: applyPromotion_def bumpCounter_eq currentWeek_def currentMonth_def
        currentYear_def ceiling_sevenths)

text \<open>
  C8. On 3 November 2026 the valid promotion \<open>promo10\<close> is applied. The used count
  becomes 1, one redemption record is appended, and the monthly and yearly counters
  are written under \<open>2026-11\<close> and \<open>2026\<close>, as the claim says. The weekly counter is
  written under \<open>2026-1\<close>: the key that the claim names, \<open>2026-W1\<close>, which the
  review model writes for the same date, holds no counter.
\<close>

theorem applyPromotion_week_key_lacks_W:
  "isValid 0 promo10
   \<and> usedCount (snd (applyPromotion promo10 0 nov3 ''u1'' ''o1'')) = 1
   \<and> redemptionHistory (snd (applyPromotion promo10 0 nov3 ''u1'' ''o1'')) = [(''u1'', ''o1'')]
   \<and> monthly (snd (applyPromotion promo10 0 nov3 ''u1'' ''o1'')) = [''2026-11'' \<mapsto> 1]
   \<and> yearly (snd (applyPromotion promo10 0 nov3 ''u1'' ''o1'')) = [''2026'' \<mapsto> 1]
   \<and> weekKey nov3 = ''2026-W1''
   \<and> weekly (snd (applyPromotion promo10 0 nov3 ''u1'' ''o1'')) (weekKey nov3) = None
   \<and> weekly (snd (applyPromotion promo10 0 nov3 ''u1'' ''o1'')) = [''2026-1'' \<mapsto> 1]"
proof -
  have v: "isValid 0 promo10"
    by (simp add: isValid_def promo10_def)
  have k: "showNat (getFullYear nov3) = ''2026''" "showNat ((getDate nov3 + 6) div 7) = ''1''"
    "showNat (Suc (getMonth nov3)) = ''11''"
    by (simp_all add: nov3_def showNat.simps digit_def)
  have e: "weekly promo10 = Map.empty" "monthly promo10 = Map.empty" "yearly promo10 = Map.empty"
    "usedCount promo10 = 0" "redemptionHistory promo10 = []"
    by (simp_all add: promo10_def)
  have w: "weekKey nov3 = ''2026-W1''"
    by (simp add: weekKey_def ceiling_sevenths k)
  show ?thesis
    using applyPromotion_effect [of 0 promo10 nov3 "''u1''" "''o1''"] v
    by (simp add: k e w counterValue_def)
qed

section \<open>Best promotion\<close>

lemma applicablePromotions_iff:
  "p \<in> set (applicablePromotions ps items) \<longleftrightarrow>
     p \<in> set ps \<and> isActive p \<and> set (applicableProducts p) \<inter> productId ` set items \<noteq> {}"
  by (auto simp: applicablePromotions_def list_ex_iff)

text \<open>The loop keeps its state when no promotion beats the running maximum.\<close>

lemma selectBest_keeps:
  "\<forall>p \<in> set ps. promoDiscount ops items p \<le> m \<Longrightarrow> selectBest ops items ps (b, m) = (b, m)"
  by (induction ps) (auto simp: Let_def)

text \<open>When some promotion beats the running maximum, the loop ends on the first
  promotion of the list that carries the largest discount.\<close>

lemma selectBest_first_max:
  "\<exists>p \<in> set ps. promoDiscount ops items p > m \<Longrightarrow>
     \<exists>pre p post. ps = pre @ p # post
       \<and> selectBest ops items ps (b, m) = (Some p, promoDiscount ops items p)
       \<and> m < promoDiscount ops items p
       \<and> (\<forall>q \<in> set pre. promoDiscount ops items q < promoDiscount ops items p)
       \<and> (\<forall>q \<in> set post. promoDiscount ops items q \<le> promoDiscount ops items p)"
proof (induction ps arbitrary: b m)
  case Nil
  then show ?case by simp
next
  case (Cons x ps)
  let ?d = "promoDiscount ops items"
  show ?case
  proof (cases "?d x > m")
    case True
    show ?thesis
    proof (cases "\<exists>q \<in> set ps. ?d q > ?d x")
      case True
      from Cons.IH [OF True, of "Some x"] obtain pre p post where
        h: "ps = pre @ p # post" "selectBest ops items ps (Some x, ?d x) = (Some p, ?d p)"
          "?d x < ?d p" "\<forall>q \<in> set pre. ?d q < ?d p" "\<forall>q \<in> set post. ?d q \<le> ?d p"
        by blast
      have "x # ps = (x # pre) @ p # post" using h(1) by simp
      moreover have "selectBest ops items (x # ps) (b, m) = (Some p, ?d p)"
        using \<open>?d x > m\<close> h(2) by (simp add: Let_def)
      moreover have "m < ?d p" using \<open>?d x > m\<close> h(3) by simp
      moreover have "\<forall>q \<in> set (x # pre). ?d q < ?d p" using h(3,4) by simp
      ultimately show ?thesis using h(5) by blast
    next
      case False
      then have le: "\<forall>q \<in> set ps. ?d q \<le> ?d x" by auto
      then have "selectBest ops items ps (Some x, ?d x) = (Some x, ?d x)"
        by (rule selectBest_keeps)
      then have "selectBest ops items (x # ps) (b, m) = (Some x, ?d x)"
        using True by (simp add: Let_def)
      moreover have "x # ps = [] @ x # ps" by simp
      ultimately show ?thesis using True le
        by (metis empty_iff empty_set)
    qed
  next
    case False
    with Cons.prems have ex: "\<exists>q \<in> set ps. ?d q > m" by auto
    from Cons.IH [OF ex, of b] obtain pre p post where
      h: "ps = pre @ p # post" "selectBest ops items ps (b, m) = (Some p, ?d p)"
        "m < ?d p" "\<forall>q \<in> set pre. ?d q < ?d p" "\<forall>q \<in> set post. ?d q \<le> ?d p"
      by blast
    have "x # ps = (x # pre) @ p # post" using h(1) by simp
    moreover have "selectBest ops items (x # ps) (b, m) = (Some p, ?d p)"
      using False h(2) by (simp add: Let_def)
    moreover have "\<forall>q \<in> set (x # pre). ?d q < ?d p" using False h(3,4) by auto
    ultimately show ?thesis using h(3,5) by blast
  qed
qed

lemmas findBest_example_defs = findBestPromotion_def applicablePromotions_def promoDiscount_def exactOps_def
  Let_def promo10_def fixed5_def fixed7_def fifty_items_def free_items_def

text \<open>With one free line item, the subtotal and the percentage discount are 0 under
  any arithmetic that computes \<open>0 * 1\<close>, \<open>0 + 0\<close>, \<open>0 * 10\<close> and \<open>0 / 100\<close> exactly, as
  double arithmetic does; the one applicable promotion is then not selected.\<close>

lemma findBestPromotion_free_order:
  assumes "dmul ops 0 1 = 0" and "dadd ops 0 0 = 0" and "dmul ops 0 10 = 0" and "ddiv ops 0 100 = 0"
  shows "applicablePromotions [promo10] free_items = [promo10]"
    and "promoDiscount ops free_items promo10 = 0"
    and "findBestPromotion ops [promo10] userId free_items = None"
  using assms
  by (simp_all add: findBestPromotion_def applicablePromotions_def promoDiscount_def Let_def
      promo10_def free_items_def)

text \<open>
  C9, as stated: whenever some active promotion applies to the order,
  \<open>findBestPromotion\<close> returns one with the maximum discount. It fails on an order
  whose subtotal is zero, under every arithmetic that is exact on the four
  operations with 0 that the discount then takes: the one applicable percentage
  promotion yields the (maximum) discount 0, which does not exceed the initial
  maximum 0, and the function returns \<open>null\<close>.
\<close>

theorem findBestPromotion_counterexample:
  "\<not> (\<exists>ops. dmul ops 0 1 = 0 \<and> dadd ops 0 0 = 0 \<and> dmul ops 0 10 = 0 \<and> ddiv ops 0 100 = 0
        \<and> (\<forall>ps userId items.
              applicablePromotions ps items \<noteq> [] \<longrightarrow>
              (\<exists>p \<in> set (applicablePromotions ps items).
                  findBestPromotion ops ps userId items = Some p
                  \<and> (\<forall>q \<in> set (applicablePromotions ps items).
                        promoDiscount ops items q \<le> promoDiscount ops items p))))"
proof
  assume "\<exists>ops. dmul ops 0 1 = 0 \<and> dadd ops 0 0 = 0 \<and> dmul ops 0 10 = 0 \<and> ddiv ops 0 100 = 0
        \<and> (\<forall>ps userId items.
              applicablePromotions ps items \<noteq> [] \<longrightarrow>
              (\<exists>p \<in> set (applicablePromotions ps items).
                  findBestPromotion ops ps userId items = Some p
                  \<and> (\<forall>q \<in> set (applicablePromotions ps items).
                        promoDiscount ops items q \<le> promoDiscount ops items p)))"
  then obtain ops where z: "dmul ops 0 1 = 0" "dadd ops 0 0 = 0" "dmul ops 0 10 = 0" "ddiv ops 0 100 = 0"
    and a: "\<forall>ps userId items.
              applicablePromotions ps items \<noteq> [] \<longrightarrow>
              (\<exists>p \<in> set (applicablePromotions ps items).
                  findBestPromotion ops ps userId items = Some p
                  \<and> (\<forall>q \<in> set (applicablePromotions ps items).
                        promoDiscount ops items q \<le> promoDiscount ops items p))"
    by blast
  have "applicablePromotions [promo10] free_items \<noteq> []"
    using findBestPromotion_free_order(1) [OF z] by simp
  with a have "\<exists>p. findBestPromotion ops [promo10] ''u1'' free_items = Some p" by blast
  moreover have "findBestPromotion ops [promo10] ''u1'' free_items = None"
    by (rule findBestPromotion_free_order(3) [OF z])
  ultimately show False by simp
qed

text \<open>
  C9, amended. Over the active promotions whose applicable products meet the
  order's products, in the order of the query, and with the discounts as double
  arithmetic computes them: when some computed discount is positive,
  \<open>findBestPromotion\<close> returns the first promotion whose computed discount is the
  maximum (every earlier one has a strictly smaller computed discount, no later one
  a larger one); when no computed discount is positive, it returns \<open>null\<close>. This
  holds whatever the rounded operations are.
\<close>

theorem findBestPromotion_first_max:
  "((\<exists>p \<in> set (applicablePromotions ps items). promoDiscount ops items p > 0) \<longrightarrow>
      (\<exists>pre p post. applicablePromotions ps items = pre @ p # post
         \<and> findBestPromotion ops ps userId items = Some p
         \<and> (\<forall>q \<in> set pre. promoDiscount ops items q < promoDiscount ops items p)
         \<and> (\<forall>q \<in> set post. promoDiscount ops items q \<le> promoDiscount ops items p)))
   \<and> ((\<forall>p \<in> set (applicablePromotions ps items). promoDiscount ops items p \<le> 0) \<longrightarrow>
        findBestPromotion ops ps userId items = None)"
proof (intro conjI impI)
  assume "\<exists>p \<in> set (applicablePromotions ps items). promoDiscount ops items p > 0"
  from selectBest_first_max [OF this, of None] show
    "\<exists>pre p post. applicablePromotions ps items = pre @ p # post
         \<and> findBestPromotion ops ps userId items = Some p
         \<and> (\<forall>q \<in> set pre. promoDiscount ops items q < promoDiscount ops items p)
         \<and> (\<forall>q \<in> set post. promoDiscount ops items q \<le> promoDiscount ops items p)"
    unfolding findBestPromotion_def by (metis fst_conv)
next
  assume "\<forall>p \<in> set (applicablePromotions ps items). promoDiscount ops items p \<le> 0"
  then show "findBestPromotion ops ps userId items = None"
    by (simp add: findBestPromotion_def selectBest_keeps)
qed

theorem findBestPromotion_first_max_witness:
  "applicablePromotions [fixed7, promo10, fixed5] fifty_items = [promo10, fixed5]
   \<and> promoDiscount exactOps fifty_items promo10 = 5 \<and> promoDiscount exactOps fifty_items fixed5 = 5
   \<and> findBestPromotion exactOps [fixed7, promo10, fixed5] ''u1'' fifty_items = Some promo10
   \<and> findBestPromotion exactOps [promo10] ''u1'' free_items = None"
proof -
  have c: "applicablePromotions [fixed7, promo10, fixed5] fifty_items = [promo10, fixed5]"
    and c0: "applicablePromotions [promo10] free_items = [promo10]"
    by (simp_all add: findBest_example_defs)
  have d: "promoDiscount exactOps fifty_items promo10 = 5" "promoDiscount exactOps fifty_items fixed5 = 5"
    "promoDiscount exactOps free_items promo10 = 0"
    by (simp_all add: findBest_example_defs)
  from findBestPromotion_first_max [of "[fixed7, promo10, fixed5]" fifty_items exactOps "''u1''"] c d
  obtain pre p post where h: "[promo10, fixed5] = pre @ p # post"
    "findBestPromotion exactOps [fixed7, promo10, fixed5] ''u1'' fifty_items = Some p"
    "\<forall>q \<in> set pre. promoDiscount exactOps fifty_items q < promoDiscount exactOps fifty_items p"
    by auto
  have "p = promo10"
  proof (cases pre)
    case Nil
    with h(1) show ?thesis by simp
  next
    case (Cons y ys)
    with h(1) have "y = promo10" "p = fixed5"
      by (auto simp: Cons_eq_append_conv append_eq_Cons_conv)
    with h(3) Cons d show ?thesis by simp
  qed
  with h(2) have "findBestPromotion exactOps [fixed7, promo10, fixed5] ''u1'' fifty_items = Some promo10"
    by simp
  moreover from findBestPromotion_first_max [of "[promo10]" free_items exactOps "''u1''"] c0 d
  have "findBestPromotion exactOps [promo10] ''u1'' free_items = None" by simp
  ultimately show ?thesis using c d by simp
qed

end
